theory Spec2Isabelle
  imports Complex_Main
begin

section \<open>Tensors, errors and the library layers used by the model\<close>

text \<open>
  The notebook defines one class, \<open>QAModel\<close>, on top of the tensor library: its constructor
  assembles library layers and its \<open>forward\<close> method chains them.  A tensor is modelled as a
  nested list, outermost axis first: a sentence batch has the axes (batch, word-vector
  dimension, token position), a feature batch the axes (batch, feature).  Entries are real
  numbers and sums, products, exponentials and logarithms are exact.  The one rounding that
  is modelled is that of the activation, which returns the 32-bit float nearest to the
  hyperbolic tangent: it decides whether the activation reaches 1 and -1.  Every exception
  the chain can raise is a value on the left of a sum.
\<close>

type_synonym tensor2 = "real list list"
type_synonym tensor3 = "real list list list"

datatype operation = Conv1dOp | MaxPool1dOp | ViewOp | CatOp | LinearOp

text \<open>
  \<open>TypeError\<close> and \<open>RuntimeError\<close> are what the library raises, tagged with the operation
  that raises.  \<open>InvalidInputError\<close> and \<open>ConfigurationError\<close> are the error classes of the
  specification; the notebook defines and raises neither.
\<close>

datatype error = TypeError operation | RuntimeError operation
  | InvalidInputError | ConfigurationError

definition and_then :: "error + 'a \<Rightarrow> ('a \<Rightarrow> error + 'b) \<Rightarrow> error + 'b" where
  "and_then r f = (case r of Inl e \<Rightarrow> Inl e | Inr v \<Rightarrow> f v)"

definition is_tensor3 :: "nat \<Rightarrow> nat \<Rightarrow> nat \<Rightarrow> tensor3 \<Rightarrow> bool" where
  "is_tensor3 B D L x \<longleftrightarrow>
     length x = B \<and> (\<forall>s\<in>set x. length s = D \<and> (\<forall>r\<in>set s. length r = L))"

definition is_tensor2 :: "nat \<Rightarrow> nat \<Rightarrow> tensor2 \<Rightarrow> bool" where
  "is_tensor2 B F x \<longleftrightarrow> length x = B \<and> (\<forall>r\<in>set x. length r = F)"

subsection \<open>nn.Conv1d\<close>

record conv1d =
  in_channels :: nat
  out_channels :: nat
  kernel_size :: nat
  padding :: int
  conv_weight :: "real list list list"
  conv_bias :: "real list"

text \<open>
  \<open>nn.Conv1d(in_channels, out_channels, kernel_size, padding=p)\<close>.  The learned values are
  given as functions of the indices; the constructor fixes the shapes: the kernel bank is
  out_channels x in_channels x kernel_size, the bias has one entry per output channel.
\<close>

definition Conv1d ::
  "nat \<Rightarrow> nat \<Rightarrow> nat \<Rightarrow> int \<Rightarrow> (nat \<Rightarrow> nat \<Rightarrow> nat \<Rightarrow> real) \<Rightarrow> (nat \<Rightarrow> real) \<Rightarrow> conv1d" where
  "Conv1d n_in n_out k p w b =
     \<lparr> in_channels = n_in, out_channels = n_out, kernel_size = k, padding = p,
       conv_weight = map (\<lambda>oc. map (\<lambda>i. map (\<lambda>j. w oc i j) [0..<k]) [0..<n_in]) [0..<n_out],
       conv_bias = map b [0..<n_out] \<rparr>"

definition pad_row :: "nat \<Rightarrow> real list \<Rightarrow> real list" where
  "pad_row p r = replicate p 0 @ r @ replicate p 0"

definition dot :: "real list \<Rightarrow> real list \<Rightarrow> real" where
  "dot ws xs = sum_list (map (\<lambda>(w, x). w * x) (zip ws xs))"

text \<open>
  One output channel (a feature map): at each position \<open>t\<close> the filter \<open>f\<close> (one row of
  \<open>k\<close> weights per input channel) is multiplied into the window of width \<open>k\<close> that starts
  at \<open>t\<close> in the padded rows, and the bias is added.
\<close>

definition correlate :: "nat \<Rightarrow> real list list \<Rightarrow> real \<Rightarrow> real list list \<Rightarrow> nat \<Rightarrow> real list" where
  "correlate k f b rows n_out =
     map (\<lambda>t. b + sum_list (map (\<lambda>(fi, ri). dot fi (take k (drop t ri))) (zip f rows)))
       [0..<n_out]"

text \<open>
  \<open>x.size()[2]\<close>, the length of the last axis.  A nested list with an empty batch or
  channel axis does not record it; \<open>size_2\<close> is 0 there.
\<close>

definition size_2 :: "tensor3 \<Rightarrow> nat" where
  "size_2 x = (case x of [] \<Rightarrow> 0 | s # _ \<Rightarrow> (case s of [] \<Rightarrow> 0 | r # _ \<Rightarrow> length r))"

text \<open>
  The convolution of one sentence: every row is padded with \<open>padding\<close> zeros on each
  side, and every filter of the bank gives one feature map of \<open>n_out\<close> positions.
\<close>

definition conv_example :: "conv1d \<Rightarrow> nat \<Rightarrow> real list list \<Rightarrow> real list list" where
  "conv_example c n_out s =
     map (\<lambda>(f, b). correlate (kernel_size c) f b (map (pad_row (nat (padding c))) s) n_out)
       (zip (conv_weight c) (conv_bias c))"

text \<open>
  The forward pass of the convolution.  The library refuses a negative padding, an empty
  kernel or an empty filter bank, an input whose channel axis differs from
  \<open>in_channels\<close>, an input whose sequence axis is empty, and a kernel wider than the
  padded input.  An empty batch is passed through as an empty batch.  Otherwise the last
  axis of the output has length \<open>L + 2 * padding - kernel_size + 1\<close>.  A sentence without
  channels has no rows to read the sequence length from and is counted as refused.
\<close>

definition Conv1d_forward :: "conv1d \<Rightarrow> tensor3 \<Rightarrow> error + tensor3" where
  "Conv1d_forward c x =
     (if padding c < 0 \<or> kernel_size c = 0 \<or> out_channels c = 0
      then Inl (RuntimeError Conv1dOp)
      else if \<exists>s\<in>set x. length s \<noteq> in_channels c then Inl (RuntimeError Conv1dOp)
      else if x = [] then Inr []
      else if size_2 x = 0 then Inl (RuntimeError Conv1dOp)
      else if size_2 x + 2 * nat (padding c) < kernel_size c then Inl (RuntimeError Conv1dOp)
      else Inr (map (conv_example c (size_2 x + 2 * nat (padding c) + 1 - kernel_size c)) x))"

subsection \<open>nn.Tanh and nn.Sequential(nn.Conv1d, nn.Tanh)\<close>

text \<open>
  The tensors hold 32-bit floats, so the activation returns a 32-bit float: the multiple of
  the unit in the last place (24 significant bits, exponents from -126) nearest to the
  hyperbolic tangent, a tie going to the even multiple.
\<close>

definition round_half_even :: "real \<Rightarrow> int" where
  "round_half_even x =
     (let f = \<lfloor>x\<rfloor>; d = x - of_int f
      in if d < 1 / 2 then f else if 1 / 2 < d then f + 1 else if even f then f else f + 1)"

definition float32 :: "real \<Rightarrow> real" where
  "float32 y =
     (if y = 0 then 0
      else let u = 2 powr of_int (max \<lfloor>log 2 \<bar>y\<bar>\<rfloor> (- 126) - 23)
           in of_int (round_half_even (y / u)) * u)"

definition tanh_float32 :: "real \<Rightarrow> real" where
  "tanh_float32 x = float32 (tanh x)"

definition Tanh_forward3 :: "tensor3 \<Rightarrow> tensor3" where
  "Tanh_forward3 x = map (map (map tanh_float32)) x"

definition Tanh_forward :: "tensor2 \<Rightarrow> tensor2" where
  "Tanh_forward x = map (map tanh_float32) x"

definition Sequential_forward :: "conv1d \<Rightarrow> tensor3 \<Rightarrow> error + tensor3" where
  "Sequential_forward c x = and_then (Conv1d_forward c x) (\<lambda>y. Inr (Tanh_forward3 y))"

subsection \<open>F.max_pool1d, Tensor.view, torch.cat\<close>

text \<open>
  \<open>F.max_pool1d(x, k)\<close>: windows of width \<open>k\<close>, taken every \<open>k\<close> positions (the stride
  defaults to the window), without padding; a window wider than the axis is refused.  An
  empty batch is returned as an empty batch: the nested list does not record the length of
  its last axis, and \<open>forward\<close> pools with that length as the window.
\<close>

definition max_pool1d :: "tensor3 \<Rightarrow> nat \<Rightarrow> error + tensor3" where
  "max_pool1d x k =
     (if x = [] then Inr []
      else if k = 0 \<or> (\<exists>s\<in>set x. \<exists>r\<in>set s. length r < k)
      then Inl (RuntimeError MaxPool1dOp)
      else Inr (map (map (\<lambda>r. map (\<lambda>i. Max (set (take k (drop (i * k) r))))
                                 [0..<(length r - k) div k + 1])) x))"

text \<open>
  \<open>x.view(-1, n)\<close>: the entries in storage order, cut into rows of \<open>n\<close>; refused when
  \<open>n\<close> is 0 or the number of entries is not a multiple of \<open>n\<close>.
\<close>

definition view :: "tensor3 \<Rightarrow> nat \<Rightarrow> error + tensor2" where
  "view x n =
     (let flat = concat (concat x)
      in if n = 0 \<or> length flat mod n \<noteq> 0 then Inl (RuntimeError ViewOp)
         else Inr (map (\<lambda>i. take n (drop (i * n) flat)) [0..<length flat div n]))"

text \<open>
  \<open>torch.cat(tensors, 1)\<close> on feature batches: \<open>None\<close> in the list is a TypeError, batches
  of different sizes are a RuntimeError, otherwise the rows are joined one after another.
\<close>

definition cat :: "tensor2 option list \<Rightarrow> error + tensor2" where
  "cat ts =
     (if None \<in> set ts then Inl (TypeError CatOp)
      else case map the ts of
             [] \<Rightarrow> Inl (RuntimeError CatOp)
           | t # rest \<Rightarrow>
               if \<exists>u\<in>set rest. length u \<noteq> length t then Inl (RuntimeError CatOp)
               else Inr (map (\<lambda>i. concat (map (\<lambda>u. u ! i) (t # rest))) [0..<length t]))"

subsection \<open>nn.Linear, nn.Dropout, nn.LogSoftmax\<close>

record linear =
  in_features :: nat
  out_features :: nat
  lin_weight :: "real list list"
  lin_bias :: "real list"

definition Linear :: "nat \<Rightarrow> nat \<Rightarrow> (nat \<Rightarrow> nat \<Rightarrow> real) \<Rightarrow> (nat \<Rightarrow> real) \<Rightarrow> linear" where
  "Linear n_in n_out w b =
     \<lparr> in_features = n_in, out_features = n_out,
       lin_weight = map (\<lambda>oc. map (\<lambda>i. w oc i) [0..<n_in]) [0..<n_out],
       lin_bias = map b [0..<n_out] \<rparr>"

text \<open>The affine map \<open>A x + b\<close> on one row, then the layer on a batch.\<close>

definition affine :: "linear \<Rightarrow> real list \<Rightarrow> real list" where
  "affine l r = map (\<lambda>(w, b). dot w r + b) (zip (lin_weight l) (lin_bias l))"

definition Linear_forward :: "linear \<Rightarrow> tensor2 \<Rightarrow> error + tensor2" where
  "Linear_forward l x =
     (if \<exists>r\<in>set x. length r \<noteq> in_features l then Inl (RuntimeError LinearOp)
      else Inr (map (affine l) x))"

text \<open>
  \<open>nn.Dropout(p)\<close>.  In training mode every entry is kept or zeroed by a random draw and
  the kept entries are divided by \<open>1 - p\<close>; the draw for the entry at row \<open>i\<close>, column
  \<open>j\<close> is \<open>keep i j\<close>.  Outside training mode the input is returned as it is.
\<close>

definition Dropout_forward :: "real \<Rightarrow> bool \<Rightarrow> (nat \<Rightarrow> nat \<Rightarrow> bool) \<Rightarrow> tensor2 \<Rightarrow> tensor2" where
  "Dropout_forward p train keep x =
     (if train
      then map (\<lambda>i. map (\<lambda>j. if keep i j then x ! i ! j / (1 - p) else 0) [0..<length (x ! i)])
             [0..<length x]
      else x)"

definition LogSoftmax_forward :: "tensor2 \<Rightarrow> tensor2" where
  "LogSoftmax_forward x = map (\<lambda>r. map (\<lambda>v. v - ln (sum_list (map exp r))) r) x"

section \<open>QAModel\<close>

record QAModel =
  no_ext_feats :: bool
  conv_channels :: nat
  conv_q :: conv1d
  conv_a :: conv1d
  combined_feature_vector :: linear
  dropout :: real
  hidden :: linear
  training :: bool

text \<open>The learned values of the four parameterised layers, as functions of the indices.\<close>

record parameters =
  conv_q_weight :: "nat \<Rightarrow> nat \<Rightarrow> nat \<Rightarrow> real"
  conv_q_bias :: "nat \<Rightarrow> real"
  conv_a_weight :: "nat \<Rightarrow> nat \<Rightarrow> nat \<Rightarrow> real"
  conv_a_bias :: "nat \<Rightarrow> real"
  combined_weight :: "nat \<Rightarrow> nat \<Rightarrow> real"
  combined_bias :: "nat \<Rightarrow> real"
  hidden_weight :: "nat \<Rightarrow> nat \<Rightarrow> real"
  hidden_bias :: "nat \<Rightarrow> real"

text \<open>
  \<open>QAModel.__init__\<close>.  A freshly constructed module is in training mode;
  \<open>train\<close> sets the mode and \<open>eval\<close> is \<open>train(False)\<close>, the inference mode.
\<close>

definition QAModel_init ::
  "parameters \<Rightarrow> nat \<Rightarrow> nat \<Rightarrow> nat \<Rightarrow> bool \<Rightarrow> nat \<Rightarrow> nat \<Rightarrow> QAModel" where
  "QAModel_init \<theta> input_n_dim filter_width conv_filters no_ext ext_feats_size n_classes =
     (let n_hidden = 2 * conv_filters + (if no_ext then 0 else ext_feats_size)
      in \<lparr> no_ext_feats = no_ext,
           conv_channels = conv_filters,
           conv_q = Conv1d input_n_dim conv_filters filter_width (int filter_width - 1)
                      (conv_q_weight \<theta>) (conv_q_bias \<theta>),
           conv_a = Conv1d input_n_dim conv_filters filter_width (int filter_width - 1)
                      (conv_a_weight \<theta>) (conv_a_bias \<theta>),
           combined_feature_vector =
             Linear (2 * conv_filters + (if no_ext then 0 else ext_feats_size)) n_hidden
               (combined_weight \<theta>) (combined_bias \<theta>),
           dropout = 0.5,
           hidden = Linear n_hidden n_classes (hidden_weight \<theta>) (hidden_bias \<theta>),
           training = True \<rparr>)"

definition train :: "QAModel \<Rightarrow> bool \<Rightarrow> QAModel" where
  "train self mode = self\<lparr>training := mode\<rparr>"

definition eval :: "QAModel \<Rightarrow> QAModel" where
  "eval self = train self False"

text \<open>
  \<open>QAModel.forward\<close>, statement by statement.  \<open>ext_feats\<close> is \<open>None\<close> when the caller
  passes Python's \<open>None\<close>; \<open>keep\<close> is the random draw of the dropout layer.
\<close>

definition forward ::
  "QAModel \<Rightarrow> (nat \<Rightarrow> nat \<Rightarrow> bool) \<Rightarrow> tensor3 \<Rightarrow> tensor3 \<Rightarrow> tensor2 option \<Rightarrow> error + tensor2" where
  "forward self keep question answer ext_feats =
     and_then (Sequential_forward (conv_q self) question) (\<lambda>q.
     and_then (max_pool1d q (size_2 q)) (\<lambda>q.
     and_then (view q (conv_channels self)) (\<lambda>q.
     and_then (Sequential_forward (conv_a self) answer) (\<lambda>a.
     and_then (max_pool1d a (size_2 a)) (\<lambda>a.
     and_then (view a (conv_channels self)) (\<lambda>a.
     and_then (if no_ext_feats self then cat [Some q, Some a]
               else cat [Some q, Some a, ext_feats]) (\<lambda>x.
     and_then (Linear_forward (combined_feature_vector self) x) (\<lambda>x.
     let x = Tanh_forward x;
         x = Dropout_forward (dropout self) (training self) keep x
     in and_then (Linear_forward (hidden self) x) (\<lambda>x.
     Inr (LogSoftmax_forward x))))))))))"

text \<open>
  The first three statements of \<open>forward\<close>, which it applies to the question with
  \<open>conv_q\<close> and again to the answer with \<open>conv_a\<close>: convolve and activate, pool over the
  whole last axis, reshape to rows of \<open>conv_channels\<close>.
\<close>

definition branch :: "conv1d \<Rightarrow> nat \<Rightarrow> tensor3 \<Rightarrow> error + tensor2" where
  "branch c n_channels x =
     and_then (Sequential_forward c x) (\<lambda>q.
     and_then (max_pool1d q (size_2 q)) (\<lambda>q.
     view q n_channels))"

section \<open>The scorer as the specification describes it\<close>

text \<open>
  The specification describes the scorer as a pipeline of pure steps.  A convolution branch
  pads each row by \<open>filter_width - 1\<close> zeros on both sides, slides every filter over the
  \<open>L + filter_width - 1\<close> positions, applies the activation, and keeps the maximum of
  every feature map: one number per channel and sentence.
\<close>

definition ConvolutionBranch_spec :: "conv1d \<Rightarrow> tensor3 \<Rightarrow> tensor2" where
  "ConvolutionBranch_spec c x =
     (let W = kernel_size c; L = size_2 x
      in map (\<lambda>s. map (\<lambda>(f, b). Max (set (map tanh_float32
                   (correlate W f b (map (pad_row (W - 1)) s) (L + W - 1)))))
                (zip (conv_weight c) (conv_bias c))) x)"

text \<open>
  The two summaries, and the auxiliary features when the model uses them, joined along the
  feature axis.
\<close>

definition concat_features :: "bool \<Rightarrow> tensor2 \<Rightarrow> tensor2 \<Rightarrow> tensor2 \<Rightarrow> tensor2" where
  "concat_features no_ext q_vec a_vec aux =
     map (\<lambda>i. q_vec ! i @ a_vec ! i @ (if no_ext then [] else aux ! i)) [0..<length q_vec]"

definition log_softmax :: "real list \<Rightarrow> real list" where
  "log_softmax logits = map (\<lambda>v. v - ln (\<Sum>u\<leftarrow>logits. exp u)) logits"

text \<open>
  The eight steps of \<open>PairScorer.score\<close>: two branches, concatenation, projection,
  activation, regularisation, classification, log-softmax.
\<close>

definition PairScorer_score_spec ::
  "QAModel \<Rightarrow> (nat \<Rightarrow> nat \<Rightarrow> bool) \<Rightarrow> tensor3 \<Rightarrow> tensor3 \<Rightarrow> tensor2 \<Rightarrow> tensor2" where
  "PairScorer_score_spec m keep question answer aux =
     (let q_vec = ConvolutionBranch_spec (conv_q m) question;
          a_vec = ConvolutionBranch_spec (conv_a m) answer;
          joined = concat_features (no_ext_feats m) q_vec a_vec aux;
          projected = map (affine (combined_feature_vector m)) joined;
          activated = map (map tanh_float32) projected;
          regularized = Dropout_forward (dropout m) (training m) keep activated;
          logits = map (affine (hidden m)) regularized
      in map log_softmax logits)"

text \<open>The auxiliary features a caller passed, none when \<open>ext_feats\<close> is \<open>None\<close>.\<close>

definition passed_features :: "tensor2 option \<Rightarrow> tensor2" where
  "passed_features ext_feats = (case ext_feats of None \<Rightarrow> [] | Some e \<Rightarrow> e)"

section \<open>A small model and one call\<close>

text \<open>
  A model with word vectors of dimension 1, filters of width 5, one filter per branch, one
  auxiliary feature and two classes, all weights 1 and all biases 0; a question of five
  tokens, an answer of one token, one auxiliary feature.
\<close>

definition ones :: parameters where
  "ones = \<lparr> conv_q_weight = (\<lambda>oc i j. 1), conv_q_bias = (\<lambda>oc. 0),
           conv_a_weight = (\<lambda>oc i j. 1), conv_a_bias = (\<lambda>oc. 0),
           combined_weight = (\<lambda>oc i. 1), combined_bias = (\<lambda>oc. 0),
           hidden_weight = (\<lambda>oc i. 1), hidden_bias = (\<lambda>oc. 0) \<rparr>"

definition small_model :: "bool \<Rightarrow> QAModel" where
  "small_model no_ext = QAModel_init ones 1 5 1 no_ext 1 2"

definition small_question :: tensor3 where
  "small_question = [[[1, 2, 3, 4, 5]]]"

definition small_answer :: tensor3 where
  "small_answer = [[[1]]]"

definition small_features :: tensor2 where
  "small_features = [[0]]"

text \<open>
  A model with filters of width 1, and a question of one token whose word vector is 20.
\<close>

definition unit_model :: QAModel where
  "unit_model = QAModel_init ones 1 1 1 False 1 2"

definition loud_question :: tensor3 where
  "loud_question = [[[20]]]"

definition keep_all :: "nat \<Rightarrow> nat \<Rightarrow> bool" where
  "keep_all i j = True"

definition keep_none :: "nat \<Rightarrow> nat \<Rightarrow> bool" where
  "keep_none i j = False"

section \<open>Shapes through the convolution branch\<close>

lemma and_then_Inr [simp]: "and_then (Inr v) f = f v"
  by (simp add: and_then_def)

lemma and_then_Inl [simp]: "and_then (Inl e) f = Inl e"
  by (simp add: and_then_def)

lemma size_2_tensor3:
  assumes "is_tensor3 B D L x" "0 < B" "0 < D"
  shows "size_2 x = L"
proof -
  from assms obtain s xs where x: "x = s # xs"
    by (cases x) (auto simp: is_tensor3_def)
  with assms have "length s = D" "\<forall>r\<in>set s. length r = L"
    by (auto simp: is_tensor3_def)
  with assms(3) obtain r rs where "s = r # rs" "length r = L"
    by (cases s) auto
  with x show ?thesis by (simp add: size_2_def)
qed

lemma length_correlate [simp]: "length (correlate k f b rows n) = n"
  by (simp add: correlate_def)

lemma conv_example_Conv1d:
  "is_tensor2 C n (conv_example (Conv1d D C W p w b) n s)"
  by (auto simp: is_tensor2_def conv_example_def Conv1d_def)

lemma Conv1d_forward_ok:
  assumes "is_tensor3 B D L x" "0 < B" "0 < D" "0 < L" "0 < W" "0 < C"
  shows "Conv1d_forward (Conv1d D C W (int W - 1) w b) x =
           Inr (map (conv_example (Conv1d D C W (int W - 1) w b) (L + W - 1)) x)"
proof -
  have sz: "size_2 x = L" using assms(1,2,3) by (rule size_2_tensor3)
  have ch: "\<not> (\<exists>s\<in>set x. length s \<noteq> D)" using assms(1) by (auto simp: is_tensor3_def)
  have n: "L + 2 * nat (int W - 1) + 1 - W = L + W - 1" using assms(5) by simp
  have ne: "x \<noteq> []" using assms(1,2) by (auto simp: is_tensor3_def)
  show ?thesis
    unfolding Conv1d_forward_def
    using assms(4,5,6) ch sz n ne by (simp add: Conv1d_def)
qed

lemma is_tensor3_conv:
  assumes "length x = B"
  shows "is_tensor3 B C n (map (conv_example (Conv1d D C W p w b) n) x)"
  using assms conv_example_Conv1d[of C n D W p w b]
  by (auto simp: is_tensor3_def is_tensor2_def)

lemma is_tensor3_Tanh: "is_tensor3 B C n y \<Longrightarrow> is_tensor3 B C n (Tanh_forward3 y)"
  by (auto simp: is_tensor3_def Tanh_forward3_def)

lemma max_pool1d_full:
  assumes "is_tensor3 B C n y" "0 < n"
  shows "max_pool1d y n = Inr (map (map (\<lambda>r. [Max (set r)])) y)"
proof -
  have len: "\<And>s r. s \<in> set y \<Longrightarrow> r \<in> set s \<Longrightarrow> length r = n"
    using assms(1) by (auto simp: is_tensor3_def)
  have "map (map (\<lambda>r. map (\<lambda>i. Max (set (take n (drop (i * n) r)))) [0..<(length r - n) div n + 1])) y
        = map (map (\<lambda>r. [Max (set r)])) y"
    by (rule map_cong[OF refl], rule map_cong[OF refl]) (simp add: len)
  then show ?thesis
    unfolding max_pool1d_def using assms(2) len by (cases "y = []") auto
qed

lemma take_drop_concat:
  assumes "\<forall>s\<in>set xs. length s = n" "i < length xs"
  shows "take n (drop (i * n) (concat xs)) = xs ! i"
  using assms
proof (induction xs arbitrary: i)
  case Nil
  then show ?case by simp
next
  case (Cons s xs)
  show ?case
  proof (cases i)
    case 0
    then show ?thesis using Cons.prems by simp
  next
    case (Suc j)
    then show ?thesis using Cons by simp
  qed
qed

lemma length_concat_const:
  "\<forall>s\<in>set xs. length s = n \<Longrightarrow> length (concat xs) = length xs * n"
  by (induction xs) auto

lemma view_pooled:
  assumes "is_tensor3 B C 1 z" "0 < B" "0 < C"
  shows "view z C = Inr (map concat z)"
proof -
  let ?rows = "map concat z"
  have rows: "\<forall>s\<in>set ?rows. length s = C"
  proof
    fix s assume "s \<in> set ?rows"
    then obtain t where t: "t \<in> set z" "s = concat t" by auto
    then have "length t = C" "\<forall>r\<in>set t. length r = 1"
      using assms(1) by (auto simp: is_tensor3_def)
    then show "length s = C" using length_concat_const[of t 1] t by simp
  qed
  have flat: "concat (concat z) = concat ?rows"
    by (induction z) auto
  have len: "length (concat ?rows) = B * C"
    using length_concat_const[OF rows] assms(1) by (simp add: is_tensor3_def)
  have "map (\<lambda>i. take C (drop (i * C) (concat ?rows))) [0..<B] = ?rows"
  proof (rule nth_equalityI)
    show "length (map (\<lambda>i. take C (drop (i * C) (concat ?rows))) [0..<B]) = length ?rows"
      using assms(1) by (simp add: is_tensor3_def)
  next
    fix i assume "i < length (map (\<lambda>i. take C (drop (i * C) (concat ?rows))) [0..<B])"
    then have i: "i < B" by simp
    then have "i < length ?rows" using assms(1) by (simp add: is_tensor3_def)
    from take_drop_concat[OF rows this] i
    show "map (\<lambda>i. take C (drop (i * C) (concat ?rows))) [0..<B] ! i = ?rows ! i"
      by simp
  qed
  then show ?thesis
    unfolding view_def flat using len assms(3) by (simp add: Let_def)
qed

lemma Sequential_forward_ok:
  assumes "is_tensor3 B D L x" "0 < B" "0 < D" "0 < L" "0 < W" "0 < C"
  shows "Sequential_forward (Conv1d D C W (int W - 1) w b) x =
           Inr (Tanh_forward3 (map (conv_example (Conv1d D C W (int W - 1) w b) (L + W - 1)) x))"
  unfolding Sequential_forward_def Conv1d_forward_ok[OF assms] by simp

lemma is_tensor3_Sequential:
  assumes "length x = B"
  shows "is_tensor3 B C n (Tanh_forward3 (map (conv_example (Conv1d D C W p w b) n) x))"
  by (rule is_tensor3_Tanh) (rule is_tensor3_conv[OF assms])

lemma is_tensor3_pooled:
  "is_tensor3 B C n y \<Longrightarrow> is_tensor3 B C 1 (map (map (\<lambda>r. [Max (set r)])) y)"
  by (auto simp: is_tensor3_def)

lemma concat_singletons: "concat (map (\<lambda>r. [f r]) s) = map f s"
  by (induction s) auto

lemma pooled_rows:
  "map concat (map (map (\<lambda>r. [Max (set r)])) (Tanh_forward3 (map g x)))
     = map (\<lambda>s. map (\<lambda>fm. Max (set (map tanh_float32 fm))) (g s)) x"
  by (simp add: Tanh_forward3_def concat_singletons comp_def)

lemma branch_ok:
  assumes x: "is_tensor3 B D L x" and pos: "0 < B" "0 < D" "0 < L" "0 < W" "0 < C"
    and c_def: "c = Conv1d D C W (int W - 1) w b"
  shows "branch c C x = Inr (ConvolutionBranch_spec c x)"
proof -
  let ?n = "L + W - 1"
  let ?y = "Tanh_forward3 (map (conv_example c ?n) x)"
  have n: "0 < ?n" using pos by simp
  have len: "length x = B" using x by (simp add: is_tensor3_def)
  have y: "is_tensor3 B C ?n ?y" unfolding c_def by (rule is_tensor3_Sequential[OF len])
  have s1: "Sequential_forward c x = Inr ?y"
    unfolding c_def by (rule Sequential_forward_ok[OF x pos])
  have s2: "size_2 ?y = ?n" by (rule size_2_tensor3[OF y pos(1) pos(5)])
  have s3: "max_pool1d ?y ?n = Inr (map (map (\<lambda>r. [Max (set r)])) ?y)"
    by (rule max_pool1d_full[OF y n])
  have s4: "view (map (map (\<lambda>r. [Max (set r)])) ?y) C
              = Inr (map concat (map (map (\<lambda>r. [Max (set r)])) ?y))"
    by (rule view_pooled[OF is_tensor3_pooled[OF y] pos(1) pos(5)])
  have sz: "size_2 x = L" by (rule size_2_tensor3[OF x pos(1,2)])
  have p: "nat (int W - 1) = W - 1" using pos(4) by simp
  have s5: "map concat (map (map (\<lambda>r. [Max (set r)])) ?y) = ConvolutionBranch_spec c x"
    unfolding pooled_rows ConvolutionBranch_spec_def Let_def sz
    by (simp add: c_def Conv1d_def conv_example_def split_def p)
  show ?thesis
    unfolding branch_def s1 and_then_Inr s2 s3 s4 s5 ..
qed

lemma is_tensor2_branch:
  assumes "is_tensor3 B D L x"
  shows "is_tensor2 B C (ConvolutionBranch_spec (Conv1d D C W p w b) x)"
  using assms
  by (auto simp: is_tensor2_def is_tensor3_def ConvolutionBranch_spec_def Let_def Conv1d_def)

lemma cat2_ok:
  assumes "is_tensor2 B F q" "is_tensor2 B G a"
  shows "cat [Some q, Some a] = Inr (concat_features True q a e)"
  using assms by (simp add: cat_def concat_features_def is_tensor2_def)

lemma cat3_ok:
  assumes "is_tensor2 B F q" "is_tensor2 B G a" "is_tensor2 B H e"
  shows "cat [Some q, Some a, Some e] = Inr (concat_features False q a e)"
  using assms by (simp add: cat_def concat_features_def is_tensor2_def)

lemma is_tensor2_concat_features:
  assumes "is_tensor2 B F q" "is_tensor2 B G a" "no_ext \<or> is_tensor2 B H e"
  shows "is_tensor2 B (F + G + (if no_ext then 0 else H)) (concat_features no_ext q a e)"
  using assms by (auto simp: concat_features_def is_tensor2_def)

lemma Linear_forward_ok:
  assumes "is_tensor2 B n_in x"
  shows "Linear_forward (Linear n_in n_out w b) x = Inr (map (affine (Linear n_in n_out w b)) x)"
  using assms by (auto simp: Linear_forward_def is_tensor2_def Linear_def)

lemma length_affine [simp]: "length (affine (Linear n_in n_out w b) r) = n_out"
  by (simp add: affine_def Linear_def)

lemma is_tensor2_affine:
  "length x = B \<Longrightarrow> is_tensor2 B n_out (map (affine (Linear n_in n_out w b)) x)"
  by (simp add: is_tensor2_def)

lemma is_tensor2_tanh: "is_tensor2 B F x \<Longrightarrow> is_tensor2 B F (map (map tanh_float32) x)"
  by (simp add: is_tensor2_def)

lemma is_tensor2_Dropout:
  "is_tensor2 B F x \<Longrightarrow> is_tensor2 B F (Dropout_forward p t keep x)"
  by (auto simp: is_tensor2_def Dropout_forward_def)

lemma LogSoftmax_rows: "LogSoftmax_forward x = map log_softmax x"
  by (simp add: LogSoftmax_forward_def log_softmax_def)

section \<open>The forward pass on well-shaped inputs\<close>

lemma forward_branches:
  "forward self keep question answer ext_feats =
     and_then (branch (conv_q self) (conv_channels self) question) (\<lambda>q.
     and_then (branch (conv_a self) (conv_channels self) answer) (\<lambda>a.
     and_then (if no_ext_feats self then cat [Some q, Some a]
               else cat [Some q, Some a, ext_feats]) (\<lambda>x.
     and_then (Linear_forward (combined_feature_vector self) x) (\<lambda>x.
     and_then (Linear_forward (hidden self)
                 (Dropout_forward (dropout self) (training self) keep (Tanh_forward x))) (\<lambda>x.
     Inr (LogSoftmax_forward x))))))"
  unfolding forward_def branch_def and_then_def Let_def
  by (simp split: sum.splits)

lemma init_fields:
  "no_ext_feats (QAModel_init \<theta> D W C ne es nc) = ne"
  "conv_channels (QAModel_init \<theta> D W C ne es nc) = C"
  "conv_q (QAModel_init \<theta> D W C ne es nc) = Conv1d D C W (int W - 1) (conv_q_weight \<theta>) (conv_q_bias \<theta>)"
  "conv_a (QAModel_init \<theta> D W C ne es nc) = Conv1d D C W (int W - 1) (conv_a_weight \<theta>) (conv_a_bias \<theta>)"
  "combined_feature_vector (QAModel_init \<theta> D W C ne es nc) =
     Linear (2 * C + (if ne then 0 else es)) (2 * C + (if ne then 0 else es))
       (combined_weight \<theta>) (combined_bias \<theta>)"
  "hidden (QAModel_init \<theta> D W C ne es nc) =
     Linear (2 * C + (if ne then 0 else es)) nc (hidden_weight \<theta>) (hidden_bias \<theta>)"
  "dropout (QAModel_init \<theta> D W C ne es nc) = 0.5"
  "training (QAModel_init \<theta> D W C ne es nc) = True"
  by (simp_all add: QAModel_init_def Let_def)

lemma cat_ok:
  assumes "is_tensor2 B F q" "is_tensor2 B G a"
    and "ne \<or> (\<exists>e. ext_feats = Some e \<and> is_tensor2 B H e)"
  shows "(if ne then cat [Some q, Some a] else cat [Some q, Some a, ext_feats])
           = Inr (concat_features ne q a (passed_features ext_feats))"
proof (cases ne)
  case True
  then show ?thesis using cat2_ok[OF assms(1,2)] by simp
next
  case False
  with assms(3) obtain e where e: "ext_feats = Some e" "is_tensor2 B H e" by auto
  show ?thesis using False cat3_ok[OF assms(1,2) e(2)] e(1)
    by (simp add: passed_features_def)
qed

lemma forward_ok:
  assumes q: "is_tensor3 B D Lq question" and a: "is_tensor3 B D La answer"
    and pos: "0 < B" "0 < D" "0 < Lq" "0 < La" "0 < W" "0 < C"
    and ext: "ne \<or> (\<exists>e. ext_feats = Some e \<and> is_tensor2 B es e)"
    and m: "m = train (QAModel_init \<theta> D W C ne es nc) tr"
  shows "forward m keep question answer ext_feats =
           Inr (PairScorer_score_spec m keep question answer (passed_features ext_feats))"
proof -
  let ?F = "2 * C + (if ne then 0 else es)"
  let ?qv = "ConvolutionBranch_spec (conv_q m) question"
  let ?av = "ConvolutionBranch_spec (conv_a m) answer"
  let ?x = "concat_features ne ?qv ?av (passed_features ext_feats)"
  have cq: "conv_q m = Conv1d D C W (int W - 1) (conv_q_weight \<theta>) (conv_q_bias \<theta>)"
    and ca: "conv_a m = Conv1d D C W (int W - 1) (conv_a_weight \<theta>) (conv_a_bias \<theta>)"
    and cc: "conv_channels m = C" and nx: "no_ext_feats m = ne"
    and cf: "combined_feature_vector m = Linear ?F ?F (combined_weight \<theta>) (combined_bias \<theta>)"
    and hd: "hidden m = Linear ?F nc (hidden_weight \<theta>) (hidden_bias \<theta>)"
    by (simp_all add: m train_def init_fields)
  have bq: "branch (conv_q m) C question = Inr ?qv"
    by (rule branch_ok[OF q pos(1,2,3,5,6) cq])
  have ba: "branch (conv_a m) C answer = Inr ?av"
    by (rule branch_ok[OF a pos(1,2,4,5,6) ca])
  have tq: "is_tensor2 B C ?qv" unfolding cq by (rule is_tensor2_branch[OF q])
  have ta: "is_tensor2 B C ?av" unfolding ca by (rule is_tensor2_branch[OF a])
  have ct: "(if ne then cat [Some ?qv, Some ?av] else cat [Some ?qv, Some ?av, ext_feats]) = Inr ?x"
    by (rule cat_ok[OF tq ta ext])
  have "is_tensor2 B (C + C + (if ne then 0 else es)) ?x"
  proof (rule is_tensor2_concat_features[OF tq ta])
    show "ne \<or> is_tensor2 B es (passed_features ext_feats)"
      using ext by (auto simp: passed_features_def)
  qed
  then have tx: "is_tensor2 B ?F ?x" by (simp add: mult_2)
  have l1: "Linear_forward (combined_feature_vector m) ?x = Inr (map (affine (combined_feature_vector m)) ?x)"
    unfolding cf by (rule Linear_forward_ok[OF tx])
  let ?h = "Dropout_forward (dropout m) (training m) keep
              (Tanh_forward (map (affine (combined_feature_vector m)) ?x))"
  have "length ?x = B" using tx by (simp add: is_tensor2_def)
  then have "is_tensor2 B ?F (map (affine (combined_feature_vector m)) ?x)"
    unfolding cf by (rule is_tensor2_affine)
  then have th: "is_tensor2 B ?F ?h"
    unfolding Tanh_forward_def by (intro is_tensor2_Dropout is_tensor2_tanh)
  have l2: "Linear_forward (hidden m) ?h = Inr (map (affine (hidden m)) ?h)"
    unfolding hd by (rule Linear_forward_ok[OF th])
  show ?thesis
    unfolding forward_branches cc nx bq ba and_then_Inr ct l1 l2
    by (simp add: PairScorer_score_spec_def Let_def nx LogSoftmax_rows Tanh_forward_def)
qed

lemma score_spec_shape:
  assumes "is_tensor3 B D Lq question"
    and m: "m = train (QAModel_init \<theta> D W C ne es nc) tr"
  shows "is_tensor2 B nc (PairScorer_score_spec m keep question answer aux)"
proof -
  have len: "length question = B" using assms(1) by (simp add: is_tensor3_def)
  show ?thesis
    unfolding PairScorer_score_spec_def Let_def is_tensor2_def
    by (simp add: m train_def init_fields len concat_features_def ConvolutionBranch_spec_def
        Dropout_forward_def log_softmax_def Let_def)
qed

section \<open>Calls that fail\<close>

lemma train_fields:
  "no_ext_feats (train m tr) = no_ext_feats m"
  "conv_channels (train m tr) = conv_channels m"
  "conv_q (train m tr) = conv_q m"
  "conv_a (train m tr) = conv_a m"
  "combined_feature_vector (train m tr) = combined_feature_vector m"
  "hidden (train m tr) = hidden m"
  "dropout (train m tr) = dropout m"
  "training (train m tr) = tr"
  by (simp_all add: train_def)

lemma forward_after_branches:
  assumes q: "is_tensor3 B D Lq question" and a: "is_tensor3 B D La answer"
    and pos: "0 < B" "0 < D" "0 < Lq" "0 < La" "0 < W" "0 < C"
    and m: "m = train (QAModel_init \<theta> D W C ne es nc) tr"
    and qv: "qv = ConvolutionBranch_spec (conv_q m) question"
    and av: "av = ConvolutionBranch_spec (conv_a m) answer"
  shows "forward m keep question answer ext_feats =
     and_then (if ne then cat [Some qv, Some av] else cat [Some qv, Some av, ext_feats]) (\<lambda>x.
     and_then (Linear_forward (combined_feature_vector m) x) (\<lambda>x.
     and_then (Linear_forward (hidden m)
                 (Dropout_forward (dropout m) (training m) keep (Tanh_forward x))) (\<lambda>x.
     Inr (LogSoftmax_forward x))))"
    and "is_tensor2 B C qv" and "is_tensor2 B C av"
proof -
  have cq: "conv_q m = Conv1d D C W (int W - 1) (conv_q_weight \<theta>) (conv_q_bias \<theta>)"
    and ca: "conv_a m = Conv1d D C W (int W - 1) (conv_a_weight \<theta>) (conv_a_bias \<theta>)"
    and cc: "conv_channels m = C" and nx: "no_ext_feats m = ne"
    by (simp_all add: m train_fields init_fields)
  have bq: "branch (conv_q m) C question = Inr qv"
    unfolding qv by (rule branch_ok[OF q pos(1,2,3,5,6) cq])
  have ba: "branch (conv_a m) C answer = Inr av"
    unfolding av by (rule branch_ok[OF a pos(1,2,4,5,6) ca])
  show "forward m keep question answer ext_feats =
     and_then (if ne then cat [Some qv, Some av] else cat [Some qv, Some av, ext_feats]) (\<lambda>x.
     and_then (Linear_forward (combined_feature_vector m) x) (\<lambda>x.
     and_then (Linear_forward (hidden m)
                 (Dropout_forward (dropout m) (training m) keep (Tanh_forward x))) (\<lambda>x.
     Inr (LogSoftmax_forward x))))"
    unfolding forward_branches cc nx bq ba and_then_Inr ..
  show "is_tensor2 B C qv" unfolding qv cq by (rule is_tensor2_branch[OF q])
  show "is_tensor2 B C av" unfolding av ca by (rule is_tensor2_branch[OF a])
qed

lemma forward_features_None:
  assumes "is_tensor3 B D Lq question" and "is_tensor3 B D La answer"
    and "0 < B" "0 < D" "0 < Lq" "0 < La" "0 < W" "0 < C"
  shows "forward (train (QAModel_init \<theta> D W C False es nc) tr) keep question answer None
           = Inl (TypeError CatOp)"
  unfolding forward_after_branches(1)[OF assms refl refl refl]
  by (simp add: cat_def)

lemma forward_features_wrong_width:
  assumes "is_tensor3 B D Lq question" and "is_tensor3 B D La answer"
    and "0 < B" "0 < D" "0 < Lq" "0 < La" "0 < W" "0 < C"
    and e: "is_tensor2 B F e" and F: "F \<noteq> es"
  shows "forward (train (QAModel_init \<theta> D W C False es nc) tr) keep question answer (Some e)
           = Inl (RuntimeError LinearOp)"
proof -
  let ?m = "train (QAModel_init \<theta> D W C False es nc) tr"
  let ?qv = "ConvolutionBranch_spec (conv_q ?m) question"
  let ?av = "ConvolutionBranch_spec (conv_a ?m) answer"
  note fa = forward_after_branches[OF assms(1-8) refl refl refl]
  have ct: "cat [Some ?qv, Some ?av, Some e] = Inr (concat_features False ?qv ?av e)"
    by (rule cat3_ok[OF fa(2,3) e])
  have "is_tensor2 B (C + C + (if False then 0 else F)) (concat_features False ?qv ?av e)"
    by (rule is_tensor2_concat_features[OF fa(2,3)]) (simp add: e)
  then have tx: "is_tensor2 B (2 * C + F) (concat_features False ?qv ?av e)"
    by (simp add: mult_2)
  from tx assms(3) obtain r where r: "r \<in> set (concat_features False ?qv ?av e)"
    by (cases "concat_features False ?qv ?av e") (auto simp: is_tensor2_def)
  with tx have "length r = 2 * C + F" by (simp add: is_tensor2_def)
  with F have "length r \<noteq> in_features (combined_feature_vector ?m)"
    by (simp add: train_fields init_fields Linear_def)
  with r have "Linear_forward (combined_feature_vector ?m) (concat_features False ?qv ?av e)
                 = Inl (RuntimeError LinearOp)"
    unfolding Linear_forward_def by auto
  then show ?thesis
    unfolding fa(1) by (simp add: ct)
qed

lemma size_2_empty_sequence: "is_tensor3 B D 0 x \<Longrightarrow> size_2 x = 0"
  by (auto simp: size_2_def is_tensor3_def split: list.splits)

lemma Sequential_forward_empty:
  "x \<noteq> [] \<Longrightarrow> size_2 x = 0 \<Longrightarrow> Sequential_forward c x = Inl (RuntimeError Conv1dOp)"
  by (simp add: Sequential_forward_def Conv1d_forward_def)

lemma forward_empty_question:
  "question \<noteq> [] \<Longrightarrow> size_2 question = 0 \<Longrightarrow>
     forward m keep question answer ext_feats = Inl (RuntimeError Conv1dOp)"
  by (simp add: forward_def Sequential_forward_empty)

lemma forward_empty_answer:
  assumes q: "is_tensor3 B D Lq question" and pos: "0 < B" "0 < D" "0 < Lq" "0 < W" "0 < C"
    and a: "answer \<noteq> []" "size_2 answer = 0"
  shows "forward (train (QAModel_init \<theta> D W C ne es nc) tr) keep question answer ext_feats
           = Inl (RuntimeError Conv1dOp)"
proof -
  let ?m = "train (QAModel_init \<theta> D W C ne es nc) tr"
  have cq: "conv_q ?m = Conv1d D C W (int W - 1) (conv_q_weight \<theta>) (conv_q_bias \<theta>)"
    and cc: "conv_channels ?m = C"
    by (simp_all add: train_fields init_fields)
  have bq: "branch (conv_q ?m) C question = Inr (ConvolutionBranch_spec (conv_q ?m) question)"
    by (rule branch_ok[OF q pos cq])
  have ba: "branch (conv_a ?m) C answer = Inl (RuntimeError Conv1dOp)"
    by (simp add: branch_def Sequential_forward_empty[OF a])
  show ?thesis
    unfolding forward_branches cc bq ba by simp
qed

section \<open>The rounded activation\<close>

lemma round_half_even_le:
  assumes "x \<le> of_int n"
  shows "round_half_even x \<le> n"
proof (cases "\<lfloor>x\<rfloor> = n")
  case True
  have "of_int \<lfloor>x\<rfloor> \<le> x" by (rule of_int_floor_le)
  moreover have "x \<le> of_int \<lfloor>x\<rfloor>" using assms True by simp
  ultimately have "x - of_int \<lfloor>x\<rfloor> = 0" by linarith
  then show ?thesis using True by (simp add: round_half_even_def Let_def)
next
  case False
  have "\<lfloor>x\<rfloor> \<le> n" using assms by (simp add: floor_le_iff)
  with False have "\<lfloor>x\<rfloor> + 1 \<le> n" by simp
  then show ?thesis by (simp add: round_half_even_def Let_def)
qed

lemma round_half_even_ge:
  assumes "of_int n \<le> x"
  shows "n \<le> round_half_even x"
proof -
  have "n \<le> \<lfloor>x\<rfloor>" using assms by (simp add: le_floor_iff)
  then show ?thesis by (simp add: round_half_even_def Let_def)
qed

lemma round_half_even_above_half:
  assumes "of_int n - 1 / 2 < x"
  shows "n \<le> round_half_even x"
proof (cases "of_int n \<le> x")
  case True
  then show ?thesis by (rule round_half_even_ge)
next
  case False
  then have lt: "x < of_int n" by simp
  have "of_int (n - 1) \<le> x" using assms by simp
  then have "n - 1 \<le> \<lfloor>x\<rfloor>" by (simp only: le_floor_iff)
  moreover have "\<lfloor>x\<rfloor> < n" using lt by (simp add: floor_less_iff)
  ultimately have f: "\<lfloor>x\<rfloor> = n - 1" by simp
  have "1 / 2 < x - of_int \<lfloor>x\<rfloor>" using assms by (simp add: f)
  then show ?thesis by (simp add: round_half_even_def Let_def f)
qed

lemma float32_bounds:
  assumes "- 1 \<le> y" "y \<le> 1"
  shows "- 1 \<le> float32 y \<and> float32 y \<le> 1"
proof (cases "y = 0")
  case True
  then show ?thesis by (simp add: float32_def)
next
  case False
  define e where "e = max \<lfloor>log 2 \<bar>y\<bar>\<rfloor> (- 126)"
  define u :: real where "u = 2 powr of_int (e - 23)"
  define N :: int where "N = 2 ^ nat (23 - e)"
  have y: "0 < \<bar>y\<bar>" "\<bar>y\<bar> \<le> 1" using False assms by simp_all
  then have "log 2 \<bar>y\<bar> \<le> 0" by simp
  then have "\<lfloor>log 2 \<bar>y\<bar>\<rfloor> \<le> 0" by (simp add: floor_le_iff)
  then have e: "e \<le> 0" by (simp add: e_def)
  have u: "0 < u" by (simp add: u_def)
  have "real_of_int N = 2 ^ nat (23 - e)" by (simp add: N_def)
  also have "\<dots> = 2 powr real (nat (23 - e))" by (simp add: powr_realpow)
  also have "real (nat (23 - e)) = - of_int (e - 23)" using e by simp
  also have "2 powr (- of_int (e - 23)) = inverse u" by (simp only: u_def powr_minus)
  finally have N: "real_of_int N = inverse u" .
  then have Nu: "real_of_int N * u = 1" using u by simp
  have iu: "0 \<le> inverse u" using u by simp
  have "y * inverse u \<le> 1 * inverse u" using assms(2) iu by (rule mult_right_mono)
  then have "y / u \<le> real_of_int N" by (simp add: N divide_inverse)
  then have hi: "round_half_even (y / u) \<le> N" by (rule round_half_even_le)
  have "(- 1) * inverse u \<le> y * inverse u" using assms(1) iu by (rule mult_right_mono)
  then have "real_of_int (- N) \<le> y / u" by (simp add: N divide_inverse)
  then have lo: "- N \<le> round_half_even (y / u)" by (rule round_half_even_ge)
  have "real_of_int (round_half_even (y / u)) * u \<le> real_of_int N * u"
    using hi u by (simp add: mult_right_mono)
  moreover have "real_of_int (- N) * u \<le> real_of_int (round_half_even (y / u)) * u"
  proof (rule mult_right_mono)
    show "real_of_int (- N) \<le> real_of_int (round_half_even (y / u))"
      using lo by (simp only: of_int_le_iff)
    show "0 \<le> u" using u by simp
  qed
  moreover have "float32 y = real_of_int (round_half_even (y / u)) * u"
    using False by (simp add: float32_def Let_def u_def e_def)
  ultimately show ?thesis using Nu by simp
qed

lemma tanh_float32_bounds: "- 1 \<le> tanh_float32 x \<and> tanh_float32 x \<le> 1"
  unfolding tanh_float32_def
  by (rule float32_bounds) (simp_all add: less_imp_le tanh_real_gt_neg1 tanh_real_lt_1)

lemma exp_ge_two_power: "2 ^ n \<le> exp (real n)"
proof -
  have "(2::real) \<le> exp 1" using exp_ge_add_one_self[of 1] by simp
  then have "(2::real) ^ n \<le> exp 1 ^ n" by (intro power_mono) simp_all
  also have "\<dots> = exp (real n)" by (simp add: exp_of_nat_mult[symmetric])
  finally show ?thesis .
qed

lemma tanh_20_close: "1 - 1 / 2 ^ 26 < tanh (20::real)" "tanh (20::real) < 1"
proof -
  have "(2::real) ^ 40 \<le> exp (real 40)" by (rule exp_ge_two_power)
  then have big: "(2::real) ^ 40 \<le> exp 40" by simp
  have "exp (- 40 :: real) = inverse (exp 40)" by (simp add: exp_minus)
  also have "\<dots> \<le> inverse (2 ^ 40)" using big by (intro le_imp_inverse_le) simp_all
  finally have small: "exp (- 40 :: real) \<le> 1 / 2 ^ 40" by (simp add: inverse_eq_divide)
  have pos: "0 < exp (- 40 :: real)" by simp
  have shrink: "2 * E / (1 + E) \<le> 2 * E" if "0 < E" for E :: real
    using that by (simp add: field_simps)
  have ne: "1 + exp (- 40 :: real) \<noteq> 0" using pos by linarith
  have "tanh (20::real) = (1 - exp (- 40)) / (1 + exp (- 40))"
    by (simp add: tanh_real_altdef)
  then have "1 - tanh (20::real) = 2 * exp (- 40) / (1 + exp (- 40))"
    using ne by (simp add: field_simps)
  also have "\<dots> \<le> 2 * exp (- 40)"
    by (rule shrink[OF pos])
  also have "\<dots> \<le> 2 * (1 / 2 ^ 40)" using small by simp
  also have "\<dots> < 1 / 2 ^ 26" by simp
  finally show "1 - 1 / 2 ^ 26 < tanh (20::real)" by simp
  show "tanh (20::real) < 1" by (rule tanh_real_lt_1)
qed

lemma tanh_float32_saturates: "tanh_float32 20 = 1"
proof -
  let ?y = "tanh (20::real)"
  note c = tanh_20_close
  have half: "1 / 2 \<le> ?y" using c(1) by simp
  then have y0: "0 < ?y" by simp
  have "- 1 \<le> log 2 ?y"
    using half y0 by (simp add: le_log_iff powr_minus inverse_eq_divide)
  moreover have "log 2 ?y < 0" using c(2) y0 by simp
  ultimately have "\<lfloor>log 2 ?y\<rfloor> = - 1"
    by (simp add: floor_eq_iff)
  moreover have "\<bar>?y\<bar> = ?y" using y0 by simp
  ultimately have fl: "max \<lfloor>log 2 \<bar>?y\<bar>\<rfloor> (- 126) - 23 = - 24"
    by (simp only:) simp
  have u: "2 powr of_int (max \<lfloor>log 2 \<bar>?y\<bar>\<rfloor> (- 126) - 23) = (1 / 2 ^ 24 :: real)"
  proof -
    have p: "(2::real) powr real (24::nat) = 2 ^ 24"
      by (rule powr_realpow) simp
    have "(2::real) powr (- real (24::nat)) = inverse (2 powr real (24::nat))"
      by (rule powr_minus)
    also have "\<dots> = 1 / 2 ^ 24" unfolding p by (simp only: inverse_eq_divide)
    finally have "(2::real) powr (- 24) = 1 / 2 ^ 24" by simp
    then show ?thesis unfolding fl by simp
  qed
  have hi: "round_half_even (?y / (1 / 2 ^ 24)) \<le> 2 ^ 24"
    by (rule round_half_even_le) (use c(2) in simp)
  have lo: "2 ^ 24 \<le> round_half_even (?y / (1 / 2 ^ 24))"
    by (rule round_half_even_above_half) (use c(1) in simp)
  from hi lo have r: "round_half_even (?y / (1 / 2 ^ 24)) = 2 ^ 24" by simp
  have "?y \<noteq> 0" using y0 by simp
  then show ?thesis
    unfolding tanh_float32_def float32_def Let_def u r by simp
qed

lemma branch_spec_entries:
  assumes "0 < size_2 x + kernel_size c - 1"
    and "row \<in> set (ConvolutionBranch_spec c x)" and "u \<in> set row"
  shows "- 1 \<le> u \<and> u \<le> 1"
proof -
  let ?n = "size_2 x + kernel_size c - 1"
  from assms(2,3) obtain s f b where
    u: "u = Max (set (map tanh_float32
              (correlate (kernel_size c) f b (map (pad_row (kernel_size c - 1)) s) ?n)))"
    by (auto simp: ConvolutionBranch_spec_def Let_def)
  let ?fm = "map tanh_float32
               (correlate (kernel_size c) f b (map (pad_row (kernel_size c - 1)) s) ?n)"
  have "length ?fm = ?n" by simp
  with assms(1) have "set ?fm \<noteq> {}" by (metis length_0_conv less_numeral_extra(3) set_empty)
  then have "Max (set ?fm) \<in> set ?fm" by (intro Max_in) simp_all
  then obtain z where "u = tanh_float32 z" unfolding u by auto
  then show ?thesis using tanh_float32_bounds[of z] by simp
qed

section \<open>The claims\<close>

lemma small_shapes:
  "is_tensor3 1 1 5 small_question" "is_tensor3 1 1 1 small_answer"
  "is_tensor2 1 1 small_features"
  by (simp_all add: is_tensor3_def is_tensor2_def small_question_def small_answer_def
      small_features_def)

lemma exp_sum_nonneg: "0 \<le> (\<Sum>u\<leftarrow>r. exp (u::real))"
  by (rule sum_list_nonneg) auto

lemma exp_sum_pos: "r \<noteq> [] \<Longrightarrow> 0 < (\<Sum>u\<leftarrow>r. exp (u::real))"
proof (cases r)
  case Nil
  then show "r \<noteq> [] \<Longrightarrow> ?thesis" by simp
next
  case (Cons a t)
  have "0 < exp a + (\<Sum>u\<leftarrow>t. exp u)"
    by (rule add_pos_nonneg[OF exp_gt_zero exp_sum_nonneg])
  then show ?thesis by (simp add: Cons)
qed

lemma log_softmax_normalised:
  assumes "r \<noteq> []"
  shows "(\<Sum>v\<leftarrow>log_softmax r. exp v) = 1"
proof -
  let ?S = "\<Sum>u\<leftarrow>r. exp u"
  have S: "0 < ?S" using assms by (rule exp_sum_pos)
  have "(\<Sum>v\<leftarrow>log_softmax r. exp v) = (\<Sum>v\<leftarrow>r. exp v * inverse ?S)"
    using S by (simp add: log_softmax_def comp_def exp_diff divide_inverse)
  also have "\<dots> = ?S * inverse ?S"
    by (simp add: sum_list_mult_const)
  also have "\<dots> = 1" using S by simp
  finally show ?thesis .
qed

text \<open>
  Claim C1.  On inputs of matching shape, \<open>forward\<close> returns exactly what the pipeline of
  the specification computes, in its order: the question and the answer are each convolved
  and max-pooled into one summary row per sentence, the two summaries (and the auxiliary
  features when the model uses them) are joined along the feature axis, the result is
  projected by an affine map, activated element-wise, passed through dropout, projected
  again to one logit per class, and normalised by log-softmax.
\<close>

theorem forward_follows_score_steps:
  assumes "is_tensor3 B D Lq question" and "is_tensor3 B D La answer"
    and "0 < B" "0 < D" "0 < Lq" "0 < La" "0 < W" "0 < C"
    and "ne \<or> (\<exists>e. ext_feats = Some e \<and> is_tensor2 B es e)"
  shows "forward (train (QAModel_init \<theta> D W C ne es nc) tr) keep question answer ext_feats =
           Inr (PairScorer_score_spec (train (QAModel_init \<theta> D W C ne es nc) tr) keep
                  question answer (passed_features ext_feats))
         \<and> is_tensor2 B nc
             (PairScorer_score_spec (train (QAModel_init \<theta> D W C ne es nc) tr) keep
                question answer (passed_features ext_feats))"
  using forward_ok[OF assms refl] score_spec_shape[OF assms(1) refl] by blast

theorem forward_follows_score_steps_witness:
  "forward (train (small_model False) True) keep_none small_question small_answer
       (Some small_features) =
     Inr (PairScorer_score_spec (train (small_model False) True) keep_none
            small_question small_answer small_features)
   \<and> is_tensor2 1 2
       (PairScorer_score_spec (train (small_model False) True) keep_none
          small_question small_answer small_features)"
  using forward_follows_score_steps[OF small_shapes(1,2), of 5 1 False "Some small_features" 1
      ones 2 True keep_none] small_shapes(3)
  by (simp add: small_model_def passed_features_def)

text \<open>
  Claim C2.  For every well-shaped input batch and a model with at least one class,
  \<open>forward\<close> returns, and the exponentials of every returned row sum to 1: the last
  step subtracts the logarithm of the sum of the exponentials of the logits.
\<close>

theorem score_rows_sum_to_one:
  assumes "is_tensor3 B D Lq question" and "is_tensor3 B D La answer"
    and "0 < B" "0 < D" "0 < Lq" "0 < La" "0 < W" "0 < C"
    and "ne \<or> (\<exists>e. ext_feats = Some e \<and> is_tensor2 B es e)"
    and "0 < nc"
  shows "\<exists>out. forward (train (QAModel_init \<theta> D W C ne es nc) tr) keep question answer ext_feats
                  = Inr out
           \<and> is_tensor2 B nc out \<and> (\<forall>row\<in>set out. (\<Sum>v\<leftarrow>row. exp v) = 1)"
proof -
  let ?m = "train (QAModel_init \<theta> D W C ne es nc) tr"
  let ?out = "PairScorer_score_spec ?m keep question answer (passed_features ext_feats)"
  have ret: "forward ?m keep question answer ext_feats = Inr ?out"
    by (rule forward_ok[OF assms(1-9) refl])
  have shape: "is_tensor2 B nc ?out"
    by (rule score_spec_shape[OF assms(1) refl])
  have "(\<Sum>v\<leftarrow>row. exp v) = 1" if row: "row \<in> set ?out" for row
  proof -
    from row obtain logits where l: "row = log_softmax logits"
      by (auto simp: PairScorer_score_spec_def Let_def)
    have "length row = nc" using shape row by (simp add: is_tensor2_def)
    then have "logits \<noteq> []" using l assms(10) by (auto simp: log_softmax_def)
    then show ?thesis unfolding l by (rule log_softmax_normalised)
  qed
  with ret shape show ?thesis by blast
qed

theorem score_rows_sum_to_one_witness:
  "\<exists>out. forward (train (small_model False) False) keep_all small_question small_answer
            (Some small_features) = Inr out
     \<and> is_tensor2 1 2 out \<and> (\<forall>row\<in>set out. (\<Sum>v\<leftarrow>row. exp v) = 1)"
  using score_rows_sum_to_one[OF small_shapes(1,2), of 5 1 False "Some small_features" 1 2
      ones False keep_all] small_shapes(3)
  by (simp add: small_model_def)

text \<open>
  Claim C3.  The two convolutions of a model with at least one filter per branch have
  padding \<open>W - 1\<close>, which puts \<open>W - 1\<close> zeros on each side of every row; on a sentence
  batch of length \<open>L \<ge> 1\<close> the
  convolution, and the convolution followed by its activation, return feature maps of
  length \<open>L + W - 1\<close> (padded length 13 and output length 9 for \<open>L = 5\<close>, \<open>W = 5\<close>).
\<close>

theorem conv_output_length:
  assumes "is_tensor3 B D L x" and "0 < B" "0 < D" "0 < L" "0 < W" "0 < C"
    and "c = conv_q (QAModel_init \<theta> D W C ne es nc) \<or> c = conv_a (QAModel_init \<theta> D W C ne es nc)"
  shows "padding c = int W - 1
         \<and> pad_row (nat (padding c)) r = replicate (W - 1) 0 @ r @ replicate (W - 1) 0
         \<and> length (pad_row (nat (padding c)) r) = length r + 2 * (W - 1)
         \<and> Conv1d_forward c x = Inr (map (conv_example c (L + W - 1)) x)
         \<and> is_tensor3 B C (L + W - 1) (map (conv_example c (L + W - 1)) x)
         \<and> (\<exists>y. Sequential_forward c x = Inr y \<and> is_tensor3 B C (L + W - 1) y)"
proof -
  from assms(7) obtain w b where c: "c = Conv1d D C W (int W - 1) w b"
    by (auto simp: init_fields)
  have len: "length x = B" using assms(1) by (simp add: is_tensor3_def)
  have p: "padding c = int W - 1" by (simp add: c Conv1d_def)
  have "nat (int W - 1) = W - 1" using assms(5) by simp
  then have pr: "pad_row (nat (padding c)) r = replicate (W - 1) 0 @ r @ replicate (W - 1) 0"
    by (simp add: p pad_row_def)
  have pl: "length (pad_row (nat (padding c)) r) = length r + 2 * (W - 1)"
    unfolding pr by simp
  have c1: "Conv1d_forward c x = Inr (map (conv_example c (L + W - 1)) x)"
    unfolding c by (rule Conv1d_forward_ok[OF assms(1-6)])
  have c2: "is_tensor3 B C (L + W - 1) (map (conv_example c (L + W - 1)) x)"
    unfolding c by (rule is_tensor3_conv[OF len])
  have c3: "\<exists>y. Sequential_forward c x = Inr y \<and> is_tensor3 B C (L + W - 1) y"
    unfolding c using Sequential_forward_ok[OF assms(1-6)] is_tensor3_Sequential[OF len] by blast
  from p pr pl c1 c2 c3 show ?thesis by blast
qed

theorem conv_output_length_witness:
  "padding (conv_q (small_model False)) = 4
   \<and> pad_row (nat (padding (conv_q (small_model False)))) [1, 2, 3, 4, 5]
       = replicate 4 0 @ [1, 2, 3, 4, 5] @ replicate 4 0
   \<and> length (pad_row (nat (padding (conv_q (small_model False)))) [1, 2, 3, 4, 5]) = 13
   \<and> Conv1d_forward (conv_q (small_model False)) small_question
       = Inr (map (conv_example (conv_q (small_model False)) 9) small_question)
   \<and> is_tensor3 1 1 9 (map (conv_example (conv_q (small_model False)) 9) small_question)
   \<and> (\<exists>y. Sequential_forward (conv_q (small_model False)) small_question = Inr y
          \<and> is_tensor3 1 1 9 y)"
proof -
  have c: "conv_q (small_model False) = conv_q (QAModel_init ones 1 5 1 False 1 2)
           \<or> conv_q (small_model False) = conv_a (QAModel_init ones 1 5 1 False 1 2)"
    by (simp add: small_model_def)
  have pos: "(0::nat) < 1" "(0::nat) < 5" by simp_all
  from conv_output_length[OF small_shapes(1) pos(1) pos(1) pos(2) pos(2) pos(1) c,
      of "[1, 2, 3, 4, 5]"]
  show ?thesis by (simp add: pad_row_def)
qed

text \<open>
  Claim C4.  For positive channel count, filter width and batch size and every sequence
  length \<open>L \<ge> 1\<close>, a convolution branch followed by pooling over the whole axis and the
  reshape returns a tensor of shape (batch, channel count), whatever \<open>L\<close> is.
\<close>

theorem branch_shape:
  assumes "is_tensor3 B D L x" and "0 < B" "0 < D" "0 < L" "0 < W" "0 < C"
    and "m = QAModel_init \<theta> D W C ne es nc"
    and "c = conv_q m \<or> c = conv_a m"
  shows "\<exists>v. branch c (conv_channels m) x = Inr v \<and> is_tensor2 B C v"
proof -
  from assms(7,8) obtain w b where c: "c = Conv1d D C W (int W - 1) w b"
    by (auto simp: init_fields)
  have cc: "conv_channels m = C" by (simp add: assms(7) init_fields)
  have "branch c C x = Inr (ConvolutionBranch_spec c x)"
    by (rule branch_ok[OF assms(1-6) c])
  moreover have "is_tensor2 B C (ConvolutionBranch_spec c x)"
    unfolding c by (rule is_tensor2_branch[OF assms(1)])
  ultimately show ?thesis unfolding cc by blast
qed

theorem branch_shape_witness:
  "\<exists>v. branch (conv_a (small_model True)) (conv_channels (small_model True)) small_answer = Inr v
     \<and> is_tensor2 1 1 v"
  using branch_shape[OF small_shapes(2), of 5 1 "small_model True" ones True 1 2
      "conv_a (small_model True)"]
  by (simp add: small_model_def)

text \<open>
  Claim C5.  The constructor takes no hidden width: the output width of the projection
  layer is \<open>2 * conv_filters\<close> plus the auxiliary feature count (plus 0 when auxiliary
  features are disabled), it equals the input width of the projection layer, and it is the
  input width of the classifier layer.
\<close>

theorem hidden_width_formula:
  "out_features (combined_feature_vector (QAModel_init \<theta> D W C ne es nc))
     = 2 * C + (if ne then 0 else es)
   \<and> in_features (combined_feature_vector (QAModel_init \<theta> D W C ne es nc))
     = out_features (combined_feature_vector (QAModel_init \<theta> D W C ne es nc))
   \<and> length (lin_weight (combined_feature_vector (QAModel_init \<theta> D W C ne es nc)))
     = 2 * C + (if ne then 0 else es)
   \<and> in_features (hidden (QAModel_init \<theta> D W C ne es nc))
     = 2 * C + (if ne then 0 else es)"
  by (simp add: init_fields Linear_def)

text \<open>
  Claim C6.  Outside training mode the dropout step returns its input unchanged, whatever
  the random draw, and so does not let the draw reach the output: two calls of
  \<open>forward\<close> with the same model and the same inputs return the same value.
\<close>

theorem inference_dropout_is_identity:
  assumes "\<not> training m"
  shows "Dropout_forward (dropout m) (training m) keep x = x
         \<and> forward m keep question answer ext_feats = forward m keep' question answer ext_feats"
  using assms by (simp add: forward_def Dropout_forward_def)

theorem inference_dropout_is_identity_witness:
  "\<not> training (eval (small_model False))
   \<and> Dropout_forward (dropout (eval (small_model False))) (training (eval (small_model False)))
        keep_none small_features = small_features
   \<and> forward (eval (small_model False)) keep_none small_question small_answer (Some small_features)
     = forward (eval (small_model False)) keep_all small_question small_answer (Some small_features)"
proof -
  have t: "\<not> training (eval (small_model False))"
    by (simp add: eval_def train_def)
  from t inference_dropout_is_identity[OF t, of keep_none small_features small_question
      small_answer "Some small_features" keep_all]
  show ?thesis by blast
qed

text \<open>
  Claim C7, as stated, fails: a model built without auxiliary features accepts a call that
  passes them and returns a score, and a model built with auxiliary features that is
  called with \<open>None\<close> fails with the TypeError of the concatenation, which runs after
  both convolution branches.
\<close>

theorem aux_features_mismatch_counterexample:
  "forward (eval (small_model True)) keep_all small_question small_answer (Some small_features)
     = Inr (PairScorer_score_spec (eval (small_model True)) keep_all small_question small_answer
              small_features)
   \<and> forward (eval (small_model True)) keep_all small_question small_answer (Some small_features)
     \<noteq> Inl ConfigurationError
   \<and> forward (eval (small_model False)) keep_all small_question small_answer None
     = Inl (TypeError CatOp)
   \<and> forward (eval (small_model False)) keep_all small_question small_answer None
     \<noteq> Inl ConfigurationError"
proof -
  have pos: "(0::nat) < 1" "(0::nat) < 5" by simp_all
  have m: "eval (small_model True) = train (QAModel_init ones 1 5 1 True 1 2) False"
    by (simp add: eval_def small_model_def)
  have "True \<or> (\<exists>e. Some small_features = Some e \<and> is_tensor2 1 1 e)" by simp
  from forward_ok[OF small_shapes(1,2) pos(1) pos(1) pos(2) pos(1) pos(2) pos(1) this m]
  have a: "forward (eval (small_model True)) keep_all small_question small_answer
             (Some small_features)
           = Inr (PairScorer_score_spec (eval (small_model True)) keep_all small_question
                    small_answer small_features)"
    by (simp add: passed_features_def)
  have b: "forward (eval (small_model False)) keep_all small_question small_answer None
           = Inl (TypeError CatOp)"
    unfolding eval_def small_model_def
    by (rule forward_features_None[OF small_shapes(1,2) pos(1) pos(1) pos(2) pos(1) pos(2) pos(1)])
  show ?thesis unfolding a b by simp
qed

text \<open>
  Claim C7, amended.  On well-shaped sentences: a model built with \<open>no_ext_feats = True\<close>
  returns a score whatever is passed as \<open>ext_feats\<close>; a model built with
  \<open>no_ext_feats = False\<close> fails with a TypeError raised by the concatenation when
  \<open>ext_feats\<close> is \<open>None\<close>, fails with a RuntimeError raised by the projection layer when
  the width of \<open>ext_feats\<close> differs from \<open>ext_feats_size\<close>, and returns a score when the
  width is \<open>ext_feats_size\<close>.
\<close>

theorem aux_features_mismatch:
  assumes "is_tensor3 B D Lq question" and "is_tensor3 B D La answer"
    and "0 < B" "0 < D" "0 < Lq" "0 < La" "0 < W" "0 < C"
  shows "(\<exists>out. forward (train (QAModel_init \<theta> D W C True es nc) tr) keep question answer
                   ext_feats = Inr out)
         \<and> forward (train (QAModel_init \<theta> D W C False es nc) tr) keep question answer None
             = Inl (TypeError CatOp)
         \<and> (is_tensor2 B F e \<and> F \<noteq> es \<longrightarrow>
              forward (train (QAModel_init \<theta> D W C False es nc) tr) keep question answer (Some e)
                = Inl (RuntimeError LinearOp))
         \<and> (is_tensor2 B es e \<longrightarrow>
              (\<exists>out. forward (train (QAModel_init \<theta> D W C False es nc) tr) keep question
                       answer (Some e) = Inr out))"
proof (intro conjI impI)
  have "True \<or> (\<exists>e. ext_feats = Some e \<and> is_tensor2 B es e)" by simp
  from forward_ok[OF assms this refl]
  show "\<exists>out. forward (train (QAModel_init \<theta> D W C True es nc) tr) keep question answer
                 ext_feats = Inr out"
    by blast
next
  show "forward (train (QAModel_init \<theta> D W C False es nc) tr) keep question answer None
          = Inl (TypeError CatOp)"
    by (rule forward_features_None[OF assms])
next
  assume "is_tensor2 B F e \<and> F \<noteq> es"
  then show "forward (train (QAModel_init \<theta> D W C False es nc) tr) keep question answer (Some e)
          = Inl (RuntimeError LinearOp)"
    using forward_features_wrong_width[OF assms] by blast
next
  assume "is_tensor2 B es e"
  then have "False \<or> (\<exists>e'. Some e = Some e' \<and> is_tensor2 B es e')" by simp
  from forward_ok[OF assms this refl]
  show "\<exists>out. forward (train (QAModel_init \<theta> D W C False es nc) tr) keep question answer
                 (Some e) = Inr out"
    by blast
qed

theorem aux_features_mismatch_witness:
  "(\<exists>out. forward (train (QAModel_init ones 1 5 1 True 1 2) False) keep_all small_question
            small_answer (Some small_features) = Inr out)
   \<and> forward (train (QAModel_init ones 1 5 1 False 1 2) False) keep_all small_question
       small_answer None = Inl (TypeError CatOp)
   \<and> forward (train (QAModel_init ones 1 5 1 False 1 2) False) keep_all small_question
       small_answer (Some [[0, 0]]) = Inl (RuntimeError LinearOp)
   \<and> (\<exists>out. forward (train (QAModel_init ones 1 5 1 False 1 2) False) keep_all small_question
            small_answer (Some small_features) = Inr out)"
proof -
  have pos: "(0::nat) < 1" "(0::nat) < 5" by simp_all
  note w = aux_features_mismatch[OF small_shapes(1,2) pos(1) pos(1) pos(2) pos(1) pos(2) pos(1),
      of ones 1 2 False keep_all]
  have wide: "is_tensor2 1 2 [[0, 0]] \<and> (2::nat) \<noteq> 1" by (simp add: is_tensor2_def)
  from w[of "Some small_features" 2 "[[0, 0]]"] wide
  have a: "(\<exists>out. forward (train (QAModel_init ones 1 5 1 True 1 2) False) keep_all
              small_question small_answer (Some small_features) = Inr out)"
    and b: "forward (train (QAModel_init ones 1 5 1 False 1 2) False) keep_all small_question
              small_answer None = Inl (TypeError CatOp)"
    and c: "forward (train (QAModel_init ones 1 5 1 False 1 2) False) keep_all small_question
              small_answer (Some [[0, 0]]) = Inl (RuntimeError LinearOp)"
    by blast+
  from w[of None 1 small_features] small_shapes(3)
  have d: "\<exists>out. forward (train (QAModel_init ones 1 5 1 False 1 2) False) keep_all small_question
            small_answer (Some small_features) = Inr out"
    by blast
  from a b c d show ?thesis by blast
qed

text \<open>
  Claim C8, as stated, fails: a question without tokens makes \<open>forward\<close> fail with the
  RuntimeError of the convolution, not with an InvalidInputError.
\<close>

theorem empty_sequence_counterexample:
  "forward (eval (small_model False)) keep_all [[[]]] small_answer (Some small_features)
     = Inl (RuntimeError Conv1dOp)
   \<and> forward (eval (small_model False)) keep_all [[[]]] small_answer (Some small_features)
     \<noteq> Inl InvalidInputError"
proof -
  have "size_2 [[[]]] = 0" by (simp add: size_2_def)
  then have "forward (eval (small_model False)) keep_all [[[]]] small_answer (Some small_features)
     = Inl (RuntimeError Conv1dOp)"
    by (intro forward_empty_question) simp_all
  then show ?thesis by simp
qed

text \<open>
  Claim C8, amended.  When the question or the answer has sequence length 0, \<open>forward\<close>
  fails with the RuntimeError that the convolution raises on an empty sequence axis; no
  pooling over an empty window takes place.
\<close>

theorem empty_sequence_rejected_by_convolution:
  assumes "is_tensor3 B D Lq question" and "is_tensor3 B D La answer"
    and "0 < B" "0 < D" "0 < W" "0 < C"
    and "Lq = 0 \<or> La = 0"
  shows "forward (train (QAModel_init \<theta> D W C ne es nc) tr) keep question answer ext_feats
           = Inl (RuntimeError Conv1dOp)"
proof (cases "Lq = 0")
  case True
  with assms(1) have "size_2 question = 0" by (simp add: size_2_empty_sequence)
  moreover have "question \<noteq> []" using assms(1,3) by (auto simp: is_tensor3_def)
  ultimately show ?thesis by (intro forward_empty_question)
next
  case False
  with assms(7) have La: "La = 0" and Lq: "0 < Lq" by simp_all
  from assms(2) La have z: "size_2 answer = 0" by (simp add: size_2_empty_sequence)
  have ne: "answer \<noteq> []" using assms(2,3) by (auto simp: is_tensor3_def)
  from forward_empty_answer[OF assms(1) assms(3,4) Lq assms(5,6) ne z]
  show ?thesis .
qed

theorem empty_sequence_rejected_by_convolution_witness:
  "forward (train (QAModel_init ones 1 5 1 False 1 2) False) keep_all small_question [[[]]]
     (Some small_features) = Inl (RuntimeError Conv1dOp)"
proof -
  have pos: "(0::nat) < 1" "(0::nat) < 5" by simp_all
  have e: "is_tensor3 1 1 0 [[[]]]" by (simp add: is_tensor3_def)
  have z: "(5::nat) = 0 \<or> (0::nat) = 0" by simp
  show ?thesis
    by (rule empty_sequence_rejected_by_convolution[OF small_shapes(1) e pos(1) pos(1) pos(2)
          pos(1) z])
qed

text \<open>
  Claim C9.  \<open>forward\<close> always takes the \<open>ext_feats\<close> argument, and for a model with
  \<open>no_ext_feats = True\<close> its result does not depend on it: any two values of
  \<open>ext_feats\<close> give the same result on the same question, answer and parameters.
\<close>

theorem ext_feats_ignored_when_disabled:
  assumes "no_ext_feats m"
  shows "forward m keep question answer ext_feats = forward m keep question answer ext_feats'"
  using assms by (simp add: forward_def)

theorem ext_feats_ignored_when_disabled_witness:
  "no_ext_feats (small_model True)
   \<and> forward (small_model True) keep_all small_question small_answer None
     = forward (small_model True) keep_all small_question small_answer (Some small_features)"
proof -
  have n: "no_ext_feats (small_model True)"
    by (simp add: small_model_def init_fields)
  from n ext_feats_ignored_when_disabled[OF n, of keep_all small_question small_answer None
      "Some small_features"]
  show ?thesis by blast
qed

text \<open>
  Claim C10, as stated, fails: the activation returns 32-bit floats, and the float nearest
  to the hyperbolic tangent of 20 is 1.  A question of one token with word vector 20, under
  a filter of width 1 with weight 1 and bias 0, has the summary 1, which is not strictly
  below 1.
\<close>

theorem branch_reaches_one_counterexample:
  "branch (conv_q unit_model) (conv_channels unit_model) loud_question = Inr [[1]]"
proof -
  have shape: "is_tensor3 1 1 1 loud_question"
    by (simp add: is_tensor3_def loud_question_def)
  have pos: "(0::nat) < 1" by simp
  have c: "conv_q unit_model = Conv1d 1 1 1 (int 1 - 1) (conv_q_weight ones) (conv_q_bias ones)"
    and cc: "conv_channels unit_model = 1"
    by (simp_all add: unit_model_def init_fields)
  have "branch (conv_q unit_model) 1 loud_question
          = Inr (ConvolutionBranch_spec (conv_q unit_model) loud_question)"
    by (rule branch_ok[OF shape pos pos pos pos pos c])
  moreover have "ConvolutionBranch_spec (conv_q unit_model) loud_question = [[tanh_float32 20]]"
    by (simp add: c ConvolutionBranch_spec_def Let_def Conv1d_def ones_def loud_question_def
        size_2_def correlate_def pad_row_def dot_def)
  ultimately show ?thesis by (simp add: cc tanh_float32_saturates)
qed

text \<open>
  Claim C10, amended.  For every input with sequence length at least 1, every element of
  the summary that a branch returns (\<open>q_vec\<close> and \<open>a_vec\<close>) lies in the closed interval
  from -1 to 1: it is a maximum over outputs of the activation.
\<close>

theorem branch_values_in_closed_interval:
  assumes "is_tensor3 B D L x" and "0 < B" "0 < D" "0 < L" "0 < W" "0 < C"
    and "m = QAModel_init \<theta> D W C ne es nc"
    and "c = conv_q m \<or> c = conv_a m"
  shows "\<exists>v. branch c (conv_channels m) x = Inr v
           \<and> (\<forall>row\<in>set v. \<forall>u\<in>set row. - 1 \<le> u \<and> u \<le> 1)"
proof -
  from assms(7,8) obtain w b where c: "c = Conv1d D C W (int W - 1) w b"
    by (auto simp: init_fields)
  have cc: "conv_channels m = C" by (simp add: assms(7) init_fields)
  have ret: "branch c C x = Inr (ConvolutionBranch_spec c x)"
    by (rule branch_ok[OF assms(1-6) c])
  have "size_2 x = L" by (rule size_2_tensor3[OF assms(1-3)])
  then have n: "0 < size_2 x + kernel_size c - 1"
    using assms(4,5) by (simp add: c Conv1d_def)
  have "\<forall>row\<in>set (ConvolutionBranch_spec c x). \<forall>u\<in>set row. - 1 \<le> u \<and> u \<le> 1"
    using branch_spec_entries[OF n] by blast
  with ret show ?thesis unfolding cc by blast
qed

theorem branch_values_in_closed_interval_witness:
  "\<exists>v. branch (conv_q (small_model False)) (conv_channels (small_model False)) small_question
         = Inr v
     \<and> (\<forall>row\<in>set v. \<forall>u\<in>set row. - 1 \<le> u \<and> u \<le> 1)"
proof -
  have pos: "(0::nat) < 1" "(0::nat) < 5" by simp_all
  have m: "small_model False = QAModel_init ones 1 5 1 False 1 2"
    by (simp add: small_model_def)
  have c: "conv_q (small_model False) = conv_q (small_model False)
           \<or> conv_q (small_model False) = conv_a (small_model False)"
    by simp
  show ?thesis
    by (rule branch_values_in_closed_interval[OF small_shapes(1) pos(1) pos(1) pos(2) pos(2)
          pos(1) m c])
qed

end
